theory Spec2Isabelle
  imports Complex_Main
begin

section \<open>Values exchanged with the Direct Line service\<close>

text \<open>
  The service parses every response body with \<open>response.json()\<close> and reads the
  parsed value with \<open>dict.get\<close>. A parsed body is a value of \<open>json\<close>; Python's
  \<open>None\<close> is \<open>JNull\<close>. Python floats (time stamps, \<open>expires_in\<close>) are read
  as reals: rounding, NaN and infinities are outside the model.
\<close>

datatype json =
    JNull
  | JBool bool
  | JNum real
  | JStr string
  | JArr "json list"
  | JObj "(string \<times> json) list"

text \<open>Python truthiness, as used by \<open>if x:\<close>, \<open>not x\<close> and \<open>x or y\<close>.\<close>

fun truthy :: "json \<Rightarrow> bool" where
  "truthy JNull = False"
| "truthy (JBool b) = b"
| "truthy (JNum r) = (r \<noteq> 0)"
| "truthy (JStr s) = (s \<noteq> [])"
| "truthy (JArr xs) = (xs \<noteq> [])"
| "truthy (JObj d) = (d \<noteq> [])"

definition py_or :: "json \<Rightarrow> json \<Rightarrow> json" where
  "py_or x y = (if truthy x then x else y)"

text \<open>\<open>d.get(k)\<close> and \<open>d.get(k, default)\<close> on a parsed dictionary.\<close>

definition dget_default :: "(string \<times> json) list \<Rightarrow> string \<Rightarrow> json \<Rightarrow> json" where
  "dget_default d k dflt = (case map_of d k of None \<Rightarrow> dflt | Some v \<Rightarrow> v)"

definition dget :: "(string \<times> json) list \<Rightarrow> string \<Rightarrow> json" where
  "dget d k = dget_default d k JNull"

text \<open>
  The exceptions the code can meet. All but \<open>Value_Error\<close> of \<open>time.sleep\<close> and of
  the constructor are raised inside a \<open>try\<close> block and caught by \<open>except Exception\<close>.
\<close>

datatype exn =
    Request_Exception string
  | Json_Decode_Error
  | Attribute_Error
  | Type_Error
  | Value_Error string

text \<open>\<open>len(x)\<close> and iteration \<open>for a in x\<close> on a parsed value.\<close>

fun py_len :: "json \<Rightarrow> exn + nat" where
  "py_len (JArr xs) = Inr (length xs)"
| "py_len (JStr s) = Inr (length s)"
| "py_len (JObj d) = Inr (length d)"
| "py_len JNull = Inl Type_Error"
| "py_len (JBool b) = Inl Type_Error"
| "py_len (JNum r) = Inl Type_Error"

fun py_iter :: "json \<Rightarrow> json list" where
  "py_iter (JArr xs) = xs"
| "py_iter (JStr s) = map (\<lambda>c. JStr [c]) s"
| "py_iter (JObj d) = map (\<lambda>kv. JStr (fst kv)) d"
| "py_iter JNull = []"
| "py_iter (JBool b) = []"
| "py_iter (JNum r) = []"

text \<open>\<open>float + x\<close> for a parsed \<open>x\<close>: numbers and booleans add, the rest raise TypeError.\<close>

fun py_number :: "json \<Rightarrow> exn + real" where
  "py_number (JNum r) = Inr r"
| "py_number (JBool b) = Inr (if b then 1 else 0)"
| "py_number JNull = Inl Type_Error"
| "py_number (JStr s) = Inl Type_Error"
| "py_number (JArr xs) = Inl Type_Error"
| "py_number (JObj d) = Inl Type_Error"

text \<open>\<open>s.replace(old, new)\<close> for a non-empty \<open>old\<close>: every occurrence, left to right.\<close>

function str_replace :: "string \<Rightarrow> string \<Rightarrow> string \<Rightarrow> string" where
  "str_replace old new [] = []"
| "str_replace old new (c # cs) =
     (if old \<noteq> [] \<and> take (length old) (c # cs) = old
      then new @ str_replace old new (drop (length old) (c # cs))
      else c # str_replace old new cs)"
  by pat_completeness auto
termination
  by (relation "measure (\<lambda>(old, new, s). length s)") auto

section \<open>The HTTP boundary, the clock and the session\<close>

record http_response =
  status_code :: int
  response_text :: string
  json_body :: "json option"

text \<open>
  \<open>json_body\<close> is what \<open>response.json()\<close> returns, \<open>None\<close> when it raises;
  \<open>response.content\<close> is empty exactly when \<open>response_text\<close> is.
\<close>

datatype http_outcome = Raises exn | Returns http_response

record activity =
  activity_type :: string
  from_id :: string
  from_name :: string
  activity_text :: string
  activity_locale :: string
  timestamp :: real
  channelId :: string

text \<open>
  A request, relative to the base \<open>directline_endpoint\<close>: the path, the bearer
  credential and, for the activity fetch, the value of the \<open>?watermark=\<close> query
  (\<open>None\<close> when no query string is appended).
\<close>

datatype request =
    Post_Tokens_Generate string
  | Post_Conversations json
  | Post_Activity json json activity
  | Get_Activities json json "json option"

datatype event = Http request | Sleep real

text \<open>
  The world outside the process: the UTC clock in seconds, the outcomes of the HTTP
  calls still to come (each with the time it takes), and the trace of what the process
  has done so far. A call with no scripted outcome left fails to connect.
\<close>

record world =
  clock :: real
  pending :: "(real \<times> http_outcome) list"
  trace :: "event list"

definition http_call :: "request \<Rightarrow> world \<Rightarrow> http_outcome \<times> world" where
  "http_call req w =
     (case pending w of
        [] \<Rightarrow> (Raises (Request_Exception ''ConnectionError''),
               w\<lparr>trace := trace w @ [Http req]\<rparr>)
      | (d, out) # rest \<Rightarrow>
          (out, w\<lparr>clock := clock w + d, pending := rest, trace := trace w @ [Http req]\<rparr>))"

text \<open>\<open>time.sleep(t)\<close> raises ValueError for a negative \<open>t\<close>.\<close>

definition sleep :: "real \<Rightarrow> world \<Rightarrow> exn + world" where
  "sleep t w =
     (if t < 0 then Inl (Value_Error ''sleep length must be non-negative'')
      else Inr (w\<lparr>clock := clock w + t, trace := trace w @ [Sleep t]\<rparr>))"

text \<open>\<open>response.json()\<close> followed by a first \<open>.get\<close>: the body must parse to a dictionary.\<close>

definition json_dict :: "http_response \<Rightarrow> exn + (string \<times> json) list" where
  "json_dict r =
     (case json_body r of
        None \<Rightarrow> Inl Json_Decode_Error
      | Some j \<Rightarrow> (case j of JObj d \<Rightarrow> Inr d | _ \<Rightarrow> Inl Attribute_Error))"

record session =
  endpoint_url :: string
  auth_header_name :: string
  auth_header_value :: string
  current_token :: json
  token_expires_at :: "real option"
  conversation_id :: json
  watermark :: json

definition directline_endpoint :: string where
  "directline_endpoint = ''https://directline.botframework.com/v3/directline''"

text \<open>The error texts of the result dictionaries, one constructor per message.\<close>

datatype error =
    Token_Generation_Failed int string
  | Token_Generation_Error exn
  | Token_Unavailable
  | Conversation_Start_Failed int string
  | Conversation_Start_Error exn
  | Conversation_Id_Missing
  | Send_Conversation_Failed error
  | Message_Send_Failed int string
  | Message_Send_Error exn
  | Conversation_Id_Not_Set
  | Activities_Failed int string
  | Activities_Error exn
  | No_Bot_Response int

section \<open>Construction\<close>

definition validate_configuration :: "session \<Rightarrow> exn + unit" where
  "validate_configuration s =
     (if endpoint_url s = [] then Inl (Value_Error ''AGENT_ENDPOINT_URL is required'')
      else if auth_header_value s = []
        then Inl (Value_Error ''CUSTOM_AUTH_HEADER_VALUE is required'')
      else Inr ())"

definition init :: "string \<Rightarrow> string \<Rightarrow> string \<Rightarrow> exn + session" where
  "init url header_name header_value =
     (let s = \<lparr>endpoint_url = url, auth_header_name = header_name,
                auth_header_value = header_value, current_token = JNull,
                token_expires_at = None, conversation_id = JNull, watermark = JNull\<rparr>
      in case validate_configuration s of Inl e \<Rightarrow> Inl e | Inr _ \<Rightarrow> Inr s)"

section \<open>Token management\<close>

datatype token_result = Token_Success json json | Token_Failure error

fun token_success :: "token_result \<Rightarrow> bool" where
  "token_success (Token_Success tok e) = True"
| "token_success (Token_Failure e) = False"

definition generate_direct_line_token :: "session \<Rightarrow> world \<Rightarrow> token_result \<times> session \<times> world" where
  "generate_direct_line_token s w =
     (let secret = str_replace ''Bearer '' [] (auth_header_value s)
      in case http_call (Post_Tokens_Generate secret) w of (out, w1) \<Rightarrow>
        (case out of
           Raises e \<Rightarrow> (Token_Failure (Token_Generation_Error e), s, w1)
         | Returns r \<Rightarrow>
             if status_code r = 200 then
               (case json_dict r of
                  Inl e \<Rightarrow> (Token_Failure (Token_Generation_Error e), s, w1)
                | Inr token_data \<Rightarrow>
                    let s1 = s\<lparr>current_token := dget token_data ''token''\<rparr>;
                        expires_in = dget_default token_data ''expires_in'' (JNum 3600)
                    in (case py_number expires_in of
                          Inl e \<Rightarrow> (Token_Failure (Token_Generation_Error e), s1, w1)
                        | Inr n \<Rightarrow>
                            let s2 = s1\<lparr>token_expires_at := Some (clock w1 + n)\<rparr>;
                                s3 = s2\<lparr>conversation_id := JNull, watermark := JNull\<rparr>
                            in (Token_Success (current_token s3) expires_in, s3, w1)))
             else (Token_Failure (Token_Generation_Failed (status_code r) (response_text r)), s, w1)))"

text \<open>The test of \<open>ensure_token_available\<close>: token and expiry truthy, and more than 300 s left.\<close>

definition token_usable :: "session \<Rightarrow> real \<Rightarrow> bool" where
  "token_usable s now =
     (truthy (current_token s) \<and>
      (case token_expires_at s of None \<Rightarrow> False | Some e \<Rightarrow> e \<noteq> 0 \<and> now < e - 300))"

definition ensure_token_available :: "session \<Rightarrow> world \<Rightarrow> bool \<times> session \<times> world" where
  "ensure_token_available s w =
     (if token_usable s (clock w) then (True, s, w)
      else
        let s1 = s\<lparr>conversation_id := JNull, watermark := JNull\<rparr>
        in case generate_direct_line_token s1 w of
             (result, s2, w2) \<Rightarrow> (token_success result, s2, w2))"

section \<open>Conversation start and message send\<close>

datatype conversation_result = Conversation_Success json json | Conversation_Failure error

definition start_conversation :: "session \<Rightarrow> world \<Rightarrow> conversation_result \<times> session \<times> world" where
  "start_conversation s w =
     (case ensure_token_available s w of (ok, s1, w1) \<Rightarrow>
        if \<not> ok then (Conversation_Failure Token_Unavailable, s1, w1)
        else case http_call (Post_Conversations (current_token s1)) w1 of (out, w2) \<Rightarrow>
          (case out of
             Raises e \<Rightarrow> (Conversation_Failure (Conversation_Start_Error e), s1, w2)
           | Returns r \<Rightarrow>
               if status_code r = 200 \<or> status_code r = 201 then
                 (case json_dict r of
                    Inl e \<Rightarrow> (Conversation_Failure (Conversation_Start_Error e), s1, w2)
                  | Inr conversation_data \<Rightarrow>
                      let new_conversation_id = dget conversation_data ''conversationId''
                      in if truthy new_conversation_id then
                           (Conversation_Success new_conversation_id (JObj conversation_data),
                            s1\<lparr>conversation_id := new_conversation_id, watermark := JNull\<rparr>, w2)
                         else (Conversation_Failure Conversation_Id_Missing, s1, w2))
               else (Conversation_Failure
                       (Conversation_Start_Failed (status_code r) (response_text r)), s1, w2)))"

text \<open>
  The result dictionary of \<open>send_message\<close>: on success the status code, the parsed
  response, the conversation ID and the activity sent; on failure the error and, for a
  refused send, the status code.
\<close>

datatype send_result =
    Send_Success int json json activity
  | Send_Failure error "int option"

fun send_success :: "send_result \<Rightarrow> bool" where
  "send_success (Send_Success code body cid act) = True"
| "send_success (Send_Failure e code) = False"

text \<open>Step 3 of \<open>send_message\<close>: build the activity and post it.\<close>

definition post_activity :: "string \<Rightarrow> session \<Rightarrow> world \<Rightarrow> send_result \<times> session \<times> world" where
  "post_activity message s w =
     (let act = \<lparr>activity_type = ''message'', from_id = ''user123'',
                  from_name = ''Test User'', activity_text = message,
                  activity_locale = ''ja-JP'', timestamp = clock w,
                  channelId = ''directline''\<rparr>
      in case http_call (Post_Activity (conversation_id s) (current_token s) act) w of
           (out, w1) \<Rightarrow>
             (case out of
                Raises e \<Rightarrow> (Send_Failure (Message_Send_Error e) None, s, w1)
              | Returns r \<Rightarrow>
                  if status_code r = 200 \<or> status_code r = 201 \<or> status_code r = 202 then
                    (if response_text r \<noteq> [] then
                       (case json_body r of
                          None \<Rightarrow> (Send_Failure (Message_Send_Error Json_Decode_Error) None, s, w1)
                        | Some response_data \<Rightarrow>
                            (Send_Success (status_code r) response_data (conversation_id s) act,
                             s, w1))
                     else (Send_Success (status_code r) (JObj []) (conversation_id s) act, s, w1))
                  else (Send_Failure (Message_Send_Failed (status_code r) (response_text r))
                          (Some (status_code r)), s, w1)))"

definition send_message :: "string \<Rightarrow> session \<Rightarrow> world \<Rightarrow> send_result \<times> session \<times> world" where
  "send_message message s w =
     (case ensure_token_available s w of (ok, s1, w1) \<Rightarrow>
        if \<not> ok then (Send_Failure Token_Unavailable None, s1, w1)
        else if \<not> truthy (conversation_id s1) then
          (case start_conversation s1 w1 of (conversation_result, s2, w2) \<Rightarrow>
             (case conversation_result of
                Conversation_Failure e \<Rightarrow>
                  (Send_Failure (Send_Conversation_Failed e) None, s2, w2)
              | Conversation_Success cid body \<Rightarrow> post_activity message s2 w2))
        else post_activity message s1 w1)"

section \<open>Activity polling\<close>

text \<open>
  The result dictionary of \<open>get_activities\<close>: on success the activities as parsed, the
  watermark of the response, the bot responses and the number of activities.
\<close>

datatype get_result =
    Get_Success json json "json list" nat
  | Get_Failure error "int option"

fun get_success :: "get_result \<Rightarrow> bool" where
  "get_success (Get_Success acts wm brs n) = True"
| "get_success (Get_Failure e code) = False"

text \<open>\<open>get_result.get("bot_responses", [])\<close>\<close>

fun bot_responses :: "get_result \<Rightarrow> json list" where
  "bot_responses (Get_Success acts wm brs n) = brs"
| "bot_responses (Get_Failure e code) = []"

text \<open>
  One round of the loop over the activities: the sender is read through two \<open>.get\<close>
  calls, the text is collected when it is truthy and the sender is not \<open>user123\<close>, and
  truthy attachments are counted with \<open>len\<close>.
\<close>

definition activity_step :: "json \<Rightarrow> json list \<Rightarrow> exn + json list" where
  "activity_step a acc =
     (case a of
        JObj d \<Rightarrow>
          (case dget_default d ''from'' (JObj []) of
             JObj f \<Rightarrow>
               let sender = dget_default f ''id'' (JStr ''unknown'');
                   txt = dget_default d ''text'' (JStr []);
                   acc1 = (if truthy txt \<and> sender \<noteq> JStr ''user123'' then acc @ [txt] else acc)
               in if truthy (dget d ''attachments'')
                  then (case py_len (dget d ''attachments'') of
                          Inl e \<Rightarrow> Inl e
                        | Inr n \<Rightarrow> Inr acc1)
                  else Inr acc1
           | _ \<Rightarrow> Inl Attribute_Error)
      | _ \<Rightarrow> Inl Attribute_Error)"

fun collect_bot_responses :: "json list \<Rightarrow> json list \<Rightarrow> exn + json list" where
  "collect_bot_responses [] acc = Inr acc"
| "collect_bot_responses (a # rest) acc =
     (case activity_step a acc of
        Inl e \<Rightarrow> Inl e
      | Inr acc1 \<Rightarrow> collect_bot_responses rest acc1)"

definition get_activities :: "json \<Rightarrow> session \<Rightarrow> world \<Rightarrow> get_result \<times> session \<times> world" where
  "get_activities wm s w =
     (case ensure_token_available s w of (ok, s1, w1) \<Rightarrow>
        if \<not> ok then (Get_Failure Token_Unavailable None, s1, w1)
        else if \<not> truthy (conversation_id s1) then (Get_Failure Conversation_Id_Not_Set None, s1, w1)
        else
          let query = (if truthy wm \<or> truthy (watermark s1)
                       then Some (py_or wm (watermark s1)) else None)
          in case http_call (Get_Activities (conversation_id s1) (current_token s1) query) w1 of
               (out, w2) \<Rightarrow>
                 (case out of
                    Raises e \<Rightarrow> (Get_Failure (Activities_Error e) None, s1, w2)
                  | Returns r \<Rightarrow>
                      if status_code r = 200 then
                        (case json_dict r of
                           Inl e \<Rightarrow> (Get_Failure (Activities_Error e) None, s1, w2)
                         | Inr activities_data \<Rightarrow>
                             let activities = dget_default activities_data ''activities'' (JArr []);
                                 new_watermark = dget activities_data ''watermark'';
                                 s2 = (if truthy new_watermark
                                       then s1\<lparr>watermark := new_watermark\<rparr> else s1)
                             in (case py_len activities of
                                   Inl e \<Rightarrow> (Get_Failure (Activities_Error e) None, s2, w2)
                                 | Inr n \<Rightarrow>
                                     (case collect_bot_responses (py_iter activities) [] of
                                        Inl e \<Rightarrow> (Get_Failure (Activities_Error e) None, s2, w2)
                                      | Inr brs \<Rightarrow>
                                          (Get_Success activities new_watermark brs n, s2, w2))))
                      else (Get_Failure (Activities_Failed (status_code r) (response_text r))
                              (Some (status_code r)), s1, w2)))"

section \<open>Send and await the reply\<close>

text \<open>
  The three shapes of what \<open>send_and_get_response\<close> returns: the failed send result
  itself, the success dictionary, and the dictionary of the exhausted retries.
\<close>

datatype response_result =
    Send_Result send_result
  | Response_Success string "json list" send_result get_result int
  | Response_Failure error string send_result int

fun response_success :: "response_result \<Rightarrow> bool" where
  "response_success (Send_Result r) = send_success r"
| "response_success (Response_Success m brs sr gr n) = True"
| "response_success (Response_Failure e m sr n) = False"

text \<open>\<open>range(n)\<close>: empty for \<open>n \<le> 0\<close>.\<close>

definition py_range :: "int \<Rightarrow> int list" where
  "py_range n = map int [0 ..< nat n]"

text \<open>
  The \<open>for attempt in range(max_retries)\<close> loop, by recursion over the attempts still
  to run; the empty list is the code after the loop.
\<close>

fun poll_loop ::
  "string \<Rightarrow> real \<Rightarrow> int \<Rightarrow> send_result \<Rightarrow> int list \<Rightarrow> session \<Rightarrow> world
     \<Rightarrow> (exn + response_result) \<times> session \<times> world" where
  "poll_loop message wait_time max_retries sr [] s w =
     (Inr (Response_Failure (No_Bot_Response max_retries) message sr max_retries), s, w)"
| "poll_loop message wait_time max_retries sr (attempt # rest) s w =
     (case sleep wait_time w of
        Inl e \<Rightarrow> (Inl e, s, w)
      | Inr w1 \<Rightarrow>
          (case get_activities JNull s w1 of (gr, s2, w2) \<Rightarrow>
             if get_success gr \<and> bot_responses gr \<noteq> []
             then (Inr (Response_Success message (bot_responses gr) sr gr (attempt + 1)), s2, w2)
             else poll_loop message wait_time max_retries sr rest s2 w2))"

definition send_and_get_response ::
  "string \<Rightarrow> real \<Rightarrow> int \<Rightarrow> session \<Rightarrow> world \<Rightarrow> (exn + response_result) \<times> session \<times> world" where
  "send_and_get_response message wait_time max_retries s w =
     (case send_message message s w of (sr, s1, w1) \<Rightarrow>
        if \<not> send_success sr then (Inr (Send_Result sr), s1, w1)
        else poll_loop message wait_time max_retries sr (py_range max_retries) s1 w1)"

section \<open>Notions of the specification\<close>

text \<open>
  The sender and the text of one activity, as the specification speaks of them: the
  \<open>id\<close> under \<open>from\<close> (\<open>unknown\<close> when either is missing) and the \<open>text\<close>
  entry (empty when missing).
\<close>

fun spec_sender :: "json \<Rightarrow> json" where
  "spec_sender (JObj d) =
     (case dget_default d ''from'' (JObj []) of
        JObj f \<Rightarrow> dget_default f ''id'' (JStr ''unknown'')
      | _ \<Rightarrow> JNull)"
| "spec_sender _ = JNull"

fun spec_text :: "json \<Rightarrow> json" where
  "spec_text (JObj d) = dget_default d ''text'' (JStr [])"
| "spec_text _ = JNull"

text \<open>
  The bot responses of the specification: the texts, in stream order, of the activities
  whose sender is not the local user and whose text is present and non-empty.
\<close>

definition spec_bot_responses :: "json list \<Rightarrow> json list" where
  "spec_bot_responses acts =
     map spec_text
       (filter (\<lambda>a. spec_sender a \<noteq> JStr ''user123'' \<and> truthy (spec_text a)) acts)"

text \<open>The watermark a response carries: the \<open>watermark\<close> entry of its parsed body, if any.\<close>

definition spec_response_watermark :: "http_response \<Rightarrow> json" where
  "spec_response_watermark r =
     (case json_dict r of Inl e \<Rightarrow> JNull | Inr d \<Rightarrow> dget d ''watermark'')"

text \<open>
  \<open>n\<close> polling attempts in a row without a reply: each waits, polls without an
  override, and the poll fails or yields no bot response. The result is the session and
  the world after the last of them.
\<close>

fun spec_silent_attempts :: "nat \<Rightarrow> real \<Rightarrow> session \<Rightarrow> world \<Rightarrow> (session \<times> world) option" where
  "spec_silent_attempts 0 wait_time s w = Some (s, w)"
| "spec_silent_attempts (Suc n) wait_time s w =
     (case sleep wait_time w of
        Inl e \<Rightarrow> None
      | Inr w1 \<Rightarrow>
          (case get_activities JNull s w1 of (gr, s2, w2) \<Rightarrow>
             if get_success gr \<and> bot_responses gr \<noteq> [] then None
             else spec_silent_attempts n wait_time s2 w2))"

text \<open>
  An activity the loop of \<open>get_activities\<close> can read: a dictionary whose \<open>from\<close>
  entry, if any, is a dictionary and whose attachments, if truthy, have a length. The
  text may be missing.
\<close>

fun well_formed_activity :: "json \<Rightarrow> bool" where
  "well_formed_activity (JObj d) =
     ((case dget_default d ''from'' (JObj []) of JObj f \<Rightarrow> True | _ \<Rightarrow> False) \<and>
      (\<not> truthy (dget d ''attachments'') \<or>
       (case py_len (dget d ''attachments'') of Inl e \<Rightarrow> False | Inr n \<Rightarrow> True)))"
| "well_formed_activity _ = False"

section \<open>A scripted service for concrete runs\<close>

definition fresh_session :: session where
  "fresh_session =
     \<lparr>endpoint_url = ''https://bot.example/api'', auth_header_name = ''Authorization'',
      auth_header_value = ''Bearer s3cr3t'', current_token = JNull,
      token_expires_at = None, conversation_id = JNull, watermark = JNull\<rparr>"

text \<open>A session holding a token that expires at 5000, a conversation and a watermark.\<close>

definition live_session :: session where
  "live_session =
     fresh_session\<lparr>current_token := JStr ''tok1'', token_expires_at := Some 5000,
                   conversation_id := JStr ''conv1'', watermark := JStr ''7''\<rparr>"

definition reply :: "int \<Rightarrow> (string \<times> json) list \<Rightarrow> real \<times> http_outcome" where
  "reply code body =
     (1, Returns \<lparr>status_code = code, response_text = ''{...}'', json_body = Some (JObj body)\<rparr>)"

definition refusal :: "int \<Rightarrow> real \<times> http_outcome" where
  "refusal code =
     (1, Returns \<lparr>status_code = code, response_text = ''refused'', json_body = None\<rparr>)"

definition scripted :: "real \<Rightarrow> (real \<times> http_outcome) list \<Rightarrow> world" where
  "scripted now outcomes = \<lparr>clock = now, pending = outcomes, trace = []\<rparr>"

definition message_from :: "string \<Rightarrow> string \<Rightarrow> json" where
  "message_from sender txt =
     JObj [(''type'', JStr ''message''), (''from'', JObj [(''id'', JStr sender)]),
           (''text'', JStr txt)]"

definition token_reply :: "real \<times> http_outcome" where
  "token_reply = reply 200 [(''token'', JStr ''tok2''), (''expires_in'', JNum 3600)]"

definition conversation_reply :: "real \<times> http_outcome" where
  "conversation_reply = reply 201 [(''conversationId'', JStr ''conv2'')]"

definition send_reply :: "real \<times> http_outcome" where
  "send_reply = reply 200 [(''id'', JStr ''conv2|0000001'')]"

definition activities_reply :: "json list \<Rightarrow> string \<Rightarrow> real \<times> http_outcome" where
  "activities_reply acts wm = reply 200 [(''activities'', JArr acts), (''watermark'', JStr wm)]"

text \<open>
  The first message of a fresh session: token, conversation and send succeed, which
  takes three calls, and the session holds the new token and conversation.
\<close>

definition hi_activity :: activity where
  "hi_activity =
     \<lparr>activity_type = ''message'', from_id = ''user123'', from_name = ''Test User'',
      activity_text = ''hi'', activity_locale = ''ja-JP'', timestamp = 1002,
      channelId = ''directline''\<rparr>"

definition sent_hi :: send_result where
  "sent_hi =
     Send_Success 200 (JObj [(''id'', JStr ''conv2|0000001'')]) (JStr ''conv2'') hi_activity"

definition conversing_session :: session where
  "conversing_session =
     fresh_session\<lparr>current_token := JStr ''tok2'', token_expires_at := Some 4601,
                   conversation_id := JStr ''conv2''\<rparr>"

definition handshake :: "(real \<times> http_outcome) list" where
  "handshake = [token_reply, conversation_reply, send_reply]"

definition handshake_trace :: "event list" where
  "handshake_trace =
     [Http (Post_Tokens_Generate ''s3cr3t''), Http (Post_Conversations (JStr ''tok2'')),
      Http (Post_Activity (JStr ''conv2'') (JStr ''tok2'') hi_activity)]"

definition poll :: "json option \<Rightarrow> event" where
  "poll query = Http (Get_Activities (JStr ''conv2'') (JStr ''tok2'') query)"

section \<open>Evaluating concrete runs\<close>

text \<open>The defining equations that a concrete run unfolds.\<close>

lemmas run_defs = ensure_token_available_def generate_direct_line_token_def token_usable_def
  http_call_def sleep_def json_dict_def start_conversation_def post_activity_def send_message_def
  get_activities_def send_and_get_response_def py_range_def activity_step_def
  dget_def dget_default_def py_or_def Let_def upt_rec
  fresh_session_def live_session_def reply_def refusal_def scripted_def message_from_def
  token_reply_def conversation_reply_def send_reply_def activities_reply_def

lemmas example_defs = hi_activity_def sent_hi_def conversing_session_def handshake_def
  handshake_trace_def poll_def

lemma handshake_run:
  "send_message ''hi'' fresh_session (scripted 1000 (handshake @ rest)) =
     (sent_hi, conversing_session, \<lparr>clock = 1003, pending = rest, trace = handshake_trace\<rparr>)"
  by (simp add: run_defs example_defs)

section \<open>Token reuse and refresh\<close>

lemma ensure_usable: "token_usable s (clock w) \<Longrightarrow> ensure_token_available s w = (True, s, w)"
  by (simp add: ensure_token_available_def)

lemma generate_trace:
  "generate_direct_line_token s w = (r, s', w') \<Longrightarrow>
   trace w' = trace w @ [Http (Post_Tokens_Generate (str_replace ''Bearer '' [] (auth_header_value s)))]"
  by (auto simp: generate_direct_line_token_def http_call_def Let_def
      split: prod.splits http_outcome.splits if_splits sum.splits list.splits)

lemma generate_success_token:
  "generate_direct_line_token s w = (Token_Success tok e, s', w') \<Longrightarrow>
   current_token s' = tok \<and> (\<exists>n. py_number e = Inr n \<and> token_expires_at s' = Some (clock w' + n))"
  by (auto simp: generate_direct_line_token_def Let_def
      split: prod.splits http_outcome.splits if_splits sum.splits)

lemma ensure_refetch:
  "\<not> token_usable s (clock w) \<Longrightarrow>
   ensure_token_available s w =
     (case generate_direct_line_token (s\<lparr>conversation_id := JNull, watermark := JNull\<rparr>) w of
        (r, s', w') \<Rightarrow> (token_success r, s', w'))"
  by (simp add: ensure_token_available_def)

lemma generate_keeps_absent:
  assumes "generate_direct_line_token s w = (r, s', w')"
    and "conversation_id s = JNull" and "watermark s = JNull"
  shows "conversation_id s' = JNull \<and> watermark s' = JNull"
  using assms
  by (auto simp: generate_direct_line_token_def Let_def
      split: prod.splits http_outcome.splits if_splits sum.splits)

lemma generate_success_clears:
  "generate_direct_line_token s w = (r, s', w') \<Longrightarrow> token_success r \<Longrightarrow>
   conversation_id s' = JNull \<and> watermark s' = JNull"
  by (auto simp: generate_direct_line_token_def Let_def
      split: prod.splits http_outcome.splits if_splits sum.splits)

text \<open>
  C5. Let a token be fetched with \<open>expires_in = 3600\<close> at a time \<open>clock w1\<close> (a UTC
  time stamp, so not negative), the token itself being a non-empty value. Then
  \<open>ensure_token_available\<close>, called at any later moment \<open>clock w2\<close>, returns success with
  the session and the world untouched (no HTTP call) exactly while
  \<open>clock w2 < expiry - 300\<close>; from then on it is the refetch through
  \<open>generate_direct_line_token\<close>, which posts to the token endpoint. At \<open>now + 3000\<close> the
  token is reused and at \<open>now + 3400\<close> it is refetched.
\<close>

theorem token_reused_until_safety_margin:
  assumes fetched: "generate_direct_line_token s w = (Token_Success tok (JNum 3600), s1, w1)"
    and tok: "truthy tok" and epoch: "0 \<le> clock w1"
  shows "(clock w2 < clock w1 + 3600 - 300 \<longrightarrow> ensure_token_available s1 w2 = (True, s1, w2)) \<and>
         (\<not> clock w2 < clock w1 + 3600 - 300 \<longrightarrow>
            ensure_token_available s1 w2 =
              (case generate_direct_line_token (s1\<lparr>conversation_id := JNull, watermark := JNull\<rparr>) w2 of
                 (r, s', w') \<Rightarrow> (token_success r, s', w')) \<and>
            trace (snd (snd (ensure_token_available s1 w2))) =
              trace w2 @ [Http (Post_Tokens_Generate (str_replace ''Bearer '' [] (auth_header_value s1)))])"
proof -
  from generate_success_token [OF fetched]
  have s1: "current_token s1 = tok" "token_expires_at s1 = Some (clock w1 + 3600)"
    by auto
  have usable: "token_usable s1 now = (now < clock w1 + 3600 - 300)" for now
    using s1 tok epoch by (simp add: token_usable_def)
  show ?thesis
  proof (intro conjI impI)
    assume "clock w2 < clock w1 + 3600 - 300"
    then show "ensure_token_available s1 w2 = (True, s1, w2)"
      by (simp add: usable ensure_usable)
  next
    assume late: "\<not> clock w2 < clock w1 + 3600 - 300"
    then have nu: "\<not> token_usable s1 (clock w2)" by (simp add: usable)
    show e: "ensure_token_available s1 w2 =
              (case generate_direct_line_token (s1\<lparr>conversation_id := JNull, watermark := JNull\<rparr>) w2 of
                 (r, s', w') \<Rightarrow> (token_success r, s', w'))"
      by (rule ensure_refetch [OF nu])
    obtain r s' w' where g: "generate_direct_line_token (s1\<lparr>conversation_id := JNull, watermark := JNull\<rparr>) w2 = (r, s', w')"
      by (cases "generate_direct_line_token (s1\<lparr>conversation_id := JNull, watermark := JNull\<rparr>) w2") auto
    show "trace (snd (snd (ensure_token_available s1 w2))) =
              trace w2 @ [Http (Post_Tokens_Generate (str_replace ''Bearer '' [] (auth_header_value s1)))]"
      using generate_trace [OF g] by (simp add: e g)
  qed
qed

theorem token_reused_until_safety_margin_witness:
  "generate_direct_line_token fresh_session (scripted 1000 [token_reply]) =
     (Token_Success (JStr ''tok2'') (JNum 3600),
      fresh_session\<lparr>current_token := JStr ''tok2'', token_expires_at := Some 4601\<rparr>,
      \<lparr>clock = 1001, pending = [], trace = [Http (Post_Tokens_Generate ''s3cr3t'')]\<rparr>) \<and>
   ensure_token_available
       (fresh_session\<lparr>current_token := JStr ''tok2'', token_expires_at := Some 4601\<rparr>)
       (scripted (1001 + 3000) [token_reply]) =
     (True, fresh_session\<lparr>current_token := JStr ''tok2'', token_expires_at := Some 4601\<rparr>,
      scripted (1001 + 3000) [token_reply]) \<and>
   trace (snd (snd (ensure_token_available
       (fresh_session\<lparr>current_token := JStr ''tok2'', token_expires_at := Some 4601\<rparr>)
       (scripted (1001 + 3400) [token_reply])))) = [Http (Post_Tokens_Generate ''s3cr3t'')]"
proof -
  have fetched: "generate_direct_line_token fresh_session (scripted 1000 [token_reply]) =
     (Token_Success (JStr ''tok2'') (JNum 3600),
      fresh_session\<lparr>current_token := JStr ''tok2'', token_expires_at := Some 4601\<rparr>,
      \<lparr>clock = 1001, pending = [], trace = [Http (Post_Tokens_Generate ''s3cr3t'')]\<rparr>)"
    by (simp add: run_defs)
  have tok: "truthy (JStr ''tok2'')" by simp
  have epoch: "0 \<le> clock \<lparr>clock = 1001, pending = [], trace = [Http (Post_Tokens_Generate ''s3cr3t'')]\<rparr>"
    by simp
  show ?thesis
    using token_reused_until_safety_margin [OF fetched tok epoch, of "scripted (1001 + 3000) [token_reply]"]
      token_reused_until_safety_margin [OF fetched tok epoch, of "scripted (1001 + 3400) [token_reply]"]
    by (simp add: run_defs)
qed

section \<open>Token refresh and the session scope\<close>

text \<open>A fetch that returns success leaves the conversation ID and the watermark absent.\<close>

lemma successful_fetch_clears_scope:
  "(generate_direct_line_token s w = (r, s1, w1) \<longrightarrow> token_success r \<longrightarrow>
      conversation_id s1 = JNull \<and> watermark s1 = JNull) \<and>
   (\<not> token_usable s (clock w) \<longrightarrow> ensure_token_available s w = (True, s2, w2) \<longrightarrow>
      conversation_id s2 = JNull \<and> watermark s2 = JNull)"
proof (intro conjI impI)
  assume "generate_direct_line_token s w = (r, s1, w1)" "token_success r"
  then show "conversation_id s1 = JNull" "watermark s1 = JNull"
    using generate_success_clears by blast+
next
  assume a: "\<not> token_usable s (clock w)" "ensure_token_available s w = (True, s2, w2)"
  then obtain r' where "generate_direct_line_token (s\<lparr>conversation_id := JNull, watermark := JNull\<rparr>) w = (r', s2, w2)"
    "token_success r'"
    by (auto simp: ensure_refetch split: prod.splits)
  then show "conversation_id s2 = JNull" "watermark s2 = JNull"
    using generate_success_clears by blast+
qed


text \<open>
  C9. When \<open>ensure_token_available\<close> finds no usable cached token and the token fetch
  then fails, it returns failure after one call of the token endpoint, and the session
  has lost its conversation ID and its watermark, whatever they were before the call.
\<close>

theorem ensure_token_failure_discards_session:
  assumes "\<not> token_usable s (clock w)"
    and "ensure_token_available s w = (ok, s', w')"
    and "\<not> ok"
  shows "conversation_id s' = JNull \<and> watermark s' = JNull \<and>
         trace w' = trace w @ [Http (Post_Tokens_Generate (str_replace ''Bearer '' [] (auth_header_value s)))]"
proof -
  obtain r where g: "generate_direct_line_token
      (s\<lparr>conversation_id := JNull, watermark := JNull\<rparr>) w = (r, s', w')"
    using assms(1,2) by (auto simp: ensure_token_available_def Let_def split: prod.splits)
  have "conversation_id s' = JNull \<and> watermark s' = JNull"
    by (rule generate_keeps_absent [OF g]) simp_all
  then show ?thesis
    using generate_trace [OF g] by simp
qed

theorem ensure_token_failure_discards_session_witness:
  "\<not> token_usable live_session (clock (scripted 4800 [refusal 401])) \<and>
   conversation_id live_session = JStr ''conv1'' \<and> watermark live_session = JStr ''7'' \<and>
   ensure_token_available live_session (scripted 4800 [refusal 401]) =
     (False, live_session\<lparr>conversation_id := JNull, watermark := JNull\<rparr>,
      \<lparr>clock = 4801, pending = [], trace = [Http (Post_Tokens_Generate ''s3cr3t'')]\<rparr>)"
proof -
  have stale: "\<not> token_usable live_session (clock (scripted 4800 [refusal 401]))"
    by (simp add: run_defs)
  have run: "ensure_token_available live_session (scripted 4800 [refusal 401]) =
     (False, live_session\<lparr>conversation_id := JNull, watermark := JNull\<rparr>,
      \<lparr>clock = 4801, pending = [], trace = [Http (Post_Tokens_Generate ''s3cr3t'')]\<rparr>)"
    by (simp add: run_defs)
  show ?thesis
    using ensure_token_failure_discards_session [OF stale run] stale run by (simp add: run_defs)
qed

section \<open>Properties of the activity poll\<close>

lemma activity_step_spec:
  "activity_step a acc = Inr acc1 \<Longrightarrow> acc1 = acc @ spec_bot_responses [a]"
  by (auto simp: activity_step_def spec_bot_responses_def Let_def
      split: json.splits if_splits sum.splits)

lemma collect_bot_responses_spec:
  "collect_bot_responses xs acc = Inr brs \<Longrightarrow> brs = acc @ spec_bot_responses xs"
proof (induction xs arbitrary: acc)
  case Nil
  then show ?case by (simp add: spec_bot_responses_def)
next
  case (Cons a xs)
  from Cons.prems obtain acc1 where step: "activity_step a acc = Inr acc1"
    and rest: "collect_bot_responses xs acc1 = Inr brs"
    by (auto split: sum.splits)
  have "brs = acc1 @ spec_bot_responses xs" by (rule Cons.IH [OF rest])
  moreover have "acc1 = acc @ spec_bot_responses [a]" by (rule activity_step_spec [OF step])
  ultimately show ?case by (simp add: spec_bot_responses_def)
qed

lemma get_activities_success:
  assumes "get_activities wm s w = (Get_Success acts nw brs n, s', w')"
  shows "token_usable s (clock w) \<and> truthy (conversation_id s) \<and>
         collect_bot_responses (py_iter acts) [] = Inr brs \<and>
         (\<exists>d r rest. pending w = (d, Returns r) # rest \<and> status_code r = 200 \<and>
            nw = spec_response_watermark r)"
proof -
  have usable: "token_usable s (clock w)"
  proof (rule ccontr)
    assume nu: "\<not> token_usable s (clock w)"
    obtain r s1 w1 where g: "generate_direct_line_token (s\<lparr>conversation_id := JNull, watermark := JNull\<rparr>) w = (r, s1, w1)"
      by (cases "generate_direct_line_token (s\<lparr>conversation_id := JNull, watermark := JNull\<rparr>) w") auto
    have "conversation_id s1 = JNull"
      using generate_keeps_absent [OF g] by simp
    then show False
      using assms by (simp add: get_activities_def ensure_refetch [OF nu] g split: if_splits)
  qed
  have "collect_bot_responses (py_iter acts) [] = Inr brs \<and> truthy (conversation_id s) \<and>
        (\<exists>d r rest body. pending w = (d, Returns r) # rest \<and> status_code r = 200 \<and>
            json_dict r = Inr body \<and> nw = dget body ''watermark'')"
    using assms
    by (auto simp: get_activities_def ensure_usable [OF usable] http_call_def Let_def
        split: prod.splits http_outcome.splits if_splits sum.splits list.splits)
  then show ?thesis
    using usable by (auto simp: spec_response_watermark_def)
qed

lemma activity_step_well_formed:
  "well_formed_activity a \<Longrightarrow> activity_step a acc = Inr (acc @ spec_bot_responses [a])"
  by (cases a)
     (auto simp: activity_step_def spec_bot_responses_def Let_def
        split: json.splits sum.splits)

lemma collect_bot_responses_well_formed:
  "list_all well_formed_activity acts \<Longrightarrow>
   collect_bot_responses acts acc = Inr (acc @ spec_bot_responses acts)"
proof (induction acts arbitrary: acc)
  case Nil
  then show ?case by (simp add: spec_bot_responses_def)
next
  case (Cons a acts)
  then have wf: "well_formed_activity a" and rest: "list_all well_formed_activity acts"
    by simp_all
  have "collect_bot_responses (a # acts) acc =
        collect_bot_responses acts (acc @ spec_bot_responses [a])"
    by (simp add: activity_step_well_formed [OF wf])
  also have "\<dots> = Inr ((acc @ spec_bot_responses [a]) @ spec_bot_responses acts)"
    by (rule Cons.IH [OF rest])
  finally show ?case by (simp add: spec_bot_responses_def)
qed

lemma get_activities_produces:
  assumes "token_usable s (clock w)" and "truthy (conversation_id s)"
    and "pending w = (d, Returns r) # rest" and "status_code r = 200"
    and "json_dict r = Inr body"
    and "dget_default body ''activities'' (JArr []) = JArr acts"
    and "list_all well_formed_activity acts"
  shows "fst (get_activities wm s w) =
     Get_Success (JArr acts) (dget body ''watermark'') (spec_bot_responses acts) (length acts)"
  using assms collect_bot_responses_well_formed [of acts "[]"]
  by (simp add: get_activities_def ensure_usable http_call_def Let_def)

text \<open>
  C7. A poll that is answered with status 200 and a list of well-formed activities
  succeeds, and its bot responses are exactly the texts of the activities whose sender is
  not \<open>user123\<close> and whose text is present and non-empty, in the order of the stream;
  and whenever \<open>get_activities\<close> succeeds, its bot responses are that list. For the
  activities of \<open>user123\<close> saying \<open>hi\<close> and of \<open>bot1\<close> saying \<open>hello\<close> and
  \<open>welcome\<close> the result is \<open>hello\<close>, \<open>welcome\<close>.
\<close>

theorem bot_responses_filtered:
  "(token_usable s (clock w) \<longrightarrow> truthy (conversation_id s) \<longrightarrow>
    pending w = (d, Returns r) # rest \<longrightarrow> status_code r = 200 \<longrightarrow>
    json_dict r = Inr body \<longrightarrow>
    dget_default body ''activities'' (JArr []) = JArr acts \<longrightarrow>
    list_all well_formed_activity acts \<longrightarrow>
      fst (get_activities wm s w) =
        Get_Success (JArr acts) (dget body ''watermark'') (spec_bot_responses acts)
          (length acts)) \<and>
   (get_activities wm2 s2 w2 = (Get_Success acts2 nw brs n, s3, w3) \<longrightarrow>
      brs = spec_bot_responses (py_iter acts2))"
proof (intro conjI impI)
  assume "token_usable s (clock w)" "truthy (conversation_id s)"
    "pending w = (d, Returns r) # rest" "status_code r = 200"
    "json_dict r = Inr body" "dget_default body ''activities'' (JArr []) = JArr acts"
    "list_all well_formed_activity acts"
  then show "fst (get_activities wm s w) =
        Get_Success (JArr acts) (dget body ''watermark'') (spec_bot_responses acts)
          (length acts)"
    by (rule get_activities_produces)
next
  assume ok: "get_activities wm2 s2 w2 = (Get_Success acts2 nw brs n, s3, w3)"
  show "brs = spec_bot_responses (py_iter acts2)"
    using collect_bot_responses_spec [of "py_iter acts2" "[]" brs]
      get_activities_success [OF ok]
    by simp
qed

theorem bot_responses_filtered_witness:
  "token_usable live_session 1000 \<and> truthy (conversation_id live_session) \<and>
   list_all well_formed_activity
     [message_from ''user123'' ''hi'', message_from ''bot1'' ''hello'',
      message_from ''bot1'' ''welcome''] \<and>
   get_activities JNull live_session
     (scripted 1000 [activities_reply
        [message_from ''user123'' ''hi'', message_from ''bot1'' ''hello'',
         message_from ''bot1'' ''welcome''] ''8'']) =
     (Get_Success
        (JArr [message_from ''user123'' ''hi'', message_from ''bot1'' ''hello'',
               message_from ''bot1'' ''welcome''])
        (JStr ''8'') [JStr ''hello'', JStr ''welcome''] 3,
      live_session\<lparr>watermark := JStr ''8''\<rparr>,
      \<lparr>clock = 1001, pending = [],
       trace = [Http (Get_Activities (JStr ''conv1'') (JStr ''tok1'') (Some (JStr ''7'')))]\<rparr>) \<and>
   spec_bot_responses
     [message_from ''user123'' ''hi'', message_from ''bot1'' ''hello'',
      message_from ''bot1'' ''welcome''] =
     [JStr ''hello'', JStr ''welcome'']"
proof -
  let ?acts = "[message_from ''user123'' ''hi'', message_from ''bot1'' ''hello'',
      message_from ''bot1'' ''welcome'']"
  let ?body = "[(''activities'', JArr ?acts), (''watermark'', JStr ''8'')]"
  let ?r = "\<lparr>status_code = 200, response_text = ''{...}'', json_body = Some (JObj ?body)\<rparr>"
  let ?w = "scripted 1000 [activities_reply ?acts ''8'']"
  have usable: "token_usable live_session (clock ?w)" by (simp add: run_defs)
  have conv: "truthy (conversation_id live_session)" by (simp add: run_defs)
  have head: "pending ?w = (1, Returns ?r) # []" by (simp add: run_defs)
  have ok: "status_code ?r = 200" by simp
  have body: "json_dict ?r = Inr ?body" by (simp add: json_dict_def)
  have acts: "dget_default ?body ''activities'' (JArr []) = JArr ?acts"
    by (simp add: dget_default_def)
  have wf: "list_all well_formed_activity ?acts" by (simp add: run_defs)
  have run: "get_activities JNull live_session ?w =
     (Get_Success (JArr ?acts) (JStr ''8'') [JStr ''hello'', JStr ''welcome''] 3,
      live_session\<lparr>watermark := JStr ''8''\<rparr>,
      \<lparr>clock = 1001, pending = [],
       trace = [Http (Get_Activities (JStr ''conv1'') (JStr ''tok1'') (Some (JStr ''7'')))]\<rparr>)"
    by (simp add: run_defs)
  have clk: "clock ?w = 1000" by (simp add: scripted_def)
  show ?thesis
    using bot_responses_filtered [where s = live_session and w = ?w and d = 1 and r = ?r and rest = "[]"
        and body = ?body and acts = ?acts and wm = JNull
        and ?wm2.0 = JNull and ?s2.0 = live_session and ?w2.0 = ?w
        and ?acts2.0 = "JArr ?acts" and nw = "JStr ''8''"
        and brs = "[JStr ''hello'', JStr ''welcome'']" and n = 3
        and ?s3.0 = "live_session\<lparr>watermark := JStr ''8''\<rparr>"
        and ?w3.0 = "\<lparr>clock = 1001, pending = [],
           trace = [Http (Get_Activities (JStr ''conv1'') (JStr ''tok1'') (Some (JStr ''7'')))]\<rparr>"]
      usable conv head ok body acts wf run clk
    by simp
qed

lemma get_activities_watermark:
  assumes "token_usable s (clock w)" "truthy (conversation_id s)"
    and "pending w = (d, Returns r) # rest" "status_code r = 200"
    and "get_activities wm s w = (gr, s', w')"
  shows "watermark s' =
     (if truthy (spec_response_watermark r) then spec_response_watermark r else watermark s)"
  using assms
  by (auto simp: get_activities_def ensure_usable http_call_def Let_def
        spec_response_watermark_def
        split: prod.splits if_splits sum.splits)

text \<open>
  C8. When the activity fetch is answered with status 200, the stored watermark afterwards
  is the watermark of the response if the response carries a non-empty one, and is
  unchanged otherwise. So after two successive successful calls whose second response
  carries a watermark, the stored watermark is that of the second response.
\<close>

theorem watermark_replaced:
  "(token_usable s (clock w) \<longrightarrow> truthy (conversation_id s) \<longrightarrow>
    pending w = (d, Returns r) # rest \<longrightarrow> status_code r = 200 \<longrightarrow>
    get_activities wm s w = (gr, s', w') \<longrightarrow>
      watermark s' =
        (if truthy (spec_response_watermark r) then spec_response_watermark r else watermark s)) \<and>
   (get_activities wm1 s w = (Get_Success a1 nw1 b1 n1, s1, w1) \<longrightarrow>
    get_activities wm2 s1 w2 = (Get_Success a2 nw2 b2 n2, s2, w3) \<longrightarrow>
    truthy nw2 \<longrightarrow> watermark s2 = nw2)"
proof (intro conjI impI)
  assume "token_usable s (clock w)" "truthy (conversation_id s)"
    "pending w = (d, Returns r) # rest" "status_code r = 200"
    "get_activities wm s w = (gr, s', w')"
  then show "watermark s' =
        (if truthy (spec_response_watermark r) then spec_response_watermark r else watermark s)"
    by (rule get_activities_watermark)
next
  assume second: "get_activities wm2 s1 w2 = (Get_Success a2 nw2 b2 n2, s2, w3)"
    and new: "truthy nw2"
  from get_activities_success [OF second] obtain d2 r2 rest2 where
    "token_usable s1 (clock w2)" "truthy (conversation_id s1)"
    "pending w2 = (d2, Returns r2) # rest2" "status_code r2 = 200"
    and nw: "nw2 = spec_response_watermark r2"
    by blast
  from get_activities_watermark [OF this(1-4) second] new nw
  show "watermark s2 = nw2" by simp
qed

theorem watermark_replaced_witness:
  "get_activities JNull live_session (scripted 1000 [activities_reply [] ''8'']) =
     (Get_Success (JArr []) (JStr ''8'') [] 0, live_session\<lparr>watermark := JStr ''8''\<rparr>,
      \<lparr>clock = 1001, pending = [],
       trace = [Http (Get_Activities (JStr ''conv1'') (JStr ''tok1'') (Some (JStr ''7'')))]\<rparr>) \<and>
   get_activities JNull (live_session\<lparr>watermark := JStr ''8''\<rparr>)
       (scripted 1010 [activities_reply [message_from ''bot1'' ''hello''] ''9'']) =
     (Get_Success (JArr [message_from ''bot1'' ''hello'']) (JStr ''9'') [JStr ''hello''] 1,
      live_session\<lparr>watermark := JStr ''9''\<rparr>,
      \<lparr>clock = 1011, pending = [],
       trace = [Http (Get_Activities (JStr ''conv1'') (JStr ''tok1'') (Some (JStr ''8'')))]\<rparr>) \<and>
   watermark (fst (snd (get_activities JNull live_session
       (scripted 1000 [reply 200 [(''activities'', JArr [])]])))) = JStr ''7''"
proof -
  let ?r = "\<lparr>status_code = 200, response_text = ''{...}'',
             json_body = Some (JObj [(''activities'', JArr [])])\<rparr>"
  let ?w = "scripted 1000 [reply 200 [(''activities'', JArr [])]]"
  let ?p = "get_activities JNull live_session ?w"
  have first: "get_activities JNull live_session (scripted 1000 [activities_reply [] ''8'']) =
     (Get_Success (JArr []) (JStr ''8'') [] 0, live_session\<lparr>watermark := JStr ''8''\<rparr>,
      \<lparr>clock = 1001, pending = [],
       trace = [Http (Get_Activities (JStr ''conv1'') (JStr ''tok1'') (Some (JStr ''7'')))]\<rparr>)"
    by (simp add: run_defs)
  have second: "get_activities JNull (live_session\<lparr>watermark := JStr ''8''\<rparr>)
       (scripted 1010 [activities_reply [message_from ''bot1'' ''hello''] ''9'']) =
     (Get_Success (JArr [message_from ''bot1'' ''hello'']) (JStr ''9'') [JStr ''hello''] 1,
      live_session\<lparr>watermark := JStr ''9''\<rparr>,
      \<lparr>clock = 1011, pending = [],
       trace = [Http (Get_Activities (JStr ''conv1'') (JStr ''tok1'') (Some (JStr ''8'')))]\<rparr>)"
    by (simp add: run_defs)
  have usable: "token_usable live_session (clock ?w)" by (simp add: run_defs)
  have conv: "truthy (conversation_id live_session)" by (simp add: run_defs)
  have head: "pending ?w = (1, Returns ?r) # []" by (simp add: run_defs)
  have ok: "status_code ?r = 200" by simp
  have third: "?p = (fst ?p, fst (snd ?p), snd (snd ?p))" by simp
  have none: "\<not> truthy (spec_response_watermark ?r)"
    by (simp add: spec_response_watermark_def run_defs)
  have seven: "watermark live_session = JStr ''7''" by (simp add: run_defs)
  show ?thesis
    using watermark_replaced [where s = live_session and w = ?w and d = 1 and r = ?r and rest = "[]"
        and wm = JNull and gr = "fst ?p" and s' = "fst (snd ?p)" and w' = "snd (snd ?p)"
        and ?wm1.0 = JNull and ?a1.0 = "JArr []" and ?nw1.0 = "JStr ''8''" and ?b1.0 = "[]"
        and ?n1.0 = 0 and ?s1.0 = "live_session\<lparr>watermark := JStr ''8''\<rparr>"
        and ?w1.0 = "\<lparr>clock = 1001, pending = [],
           trace = [Http (Get_Activities (JStr ''conv1'') (JStr ''tok1'') (Some (JStr ''7'')))]\<rparr>"
        and ?wm2.0 = JNull
        and ?w2.0 = "scripted 1010 [activities_reply [message_from ''bot1'' ''hello''] ''9'']"
        and ?a2.0 = "JArr [message_from ''bot1'' ''hello'']" and ?nw2.0 = "JStr ''9''"
        and ?b2.0 = "[JStr ''hello'']" and ?n2.0 = 1
        and ?s2.0 = "live_session\<lparr>watermark := JStr ''9''\<rparr>"
        and ?w3.0 = "\<lparr>clock = 1011, pending = [],
           trace = [Http (Get_Activities (JStr ''conv1'') (JStr ''tok1'') (Some (JStr ''8'')))]\<rparr>"]
      first second usable conv head ok third none seven
    by simp
qed

lemma get_activities_query:
  assumes "token_usable s (clock w)" and "truthy (conversation_id s)"
    and "get_activities JNull s w = (gr, s', w')"
  shows "trace w' = trace w @
     [Http (Get_Activities (conversation_id s) (current_token s)
        (if truthy (watermark s) then Some (watermark s) else None))]"
  using assms
  by (auto simp: get_activities_def ensure_usable http_call_def Let_def py_or_def
      split: prod.splits if_splits sum.splits list.splits http_outcome.splits)

section \<open>Properties of the retry loop\<close>

lemma py_range_nonpositive: "n \<le> 0 \<Longrightarrow> py_range n = []"
  by (simp add: py_range_def)

lemma py_range_two: "2 \<le> n \<Longrightarrow> py_range n = 0 # 1 # map int [2 ..< nat n]"
proof -
  assume "2 \<le> n"
  then have "[0 ..< nat n] = 0 # 1 # [2 ..< nat n]"
    by (simp add: upt_conv_Cons numeral_2_eq_2)
  then show ?thesis by (simp add: py_range_def)
qed

lemma length_py_range: "length (py_range n) = nat n"
  by (simp add: py_range_def)

lemma poll_loop_silent:
  "spec_silent_attempts (length attempts) wait_time s w = Some (s', w') \<Longrightarrow>
   poll_loop message wait_time max_retries sr attempts s w =
     (Inr (Response_Failure (No_Bot_Response max_retries) message sr max_retries), s', w')"
proof (induction attempts arbitrary: s w)
  case Nil
  then show ?case by simp
next
  case (Cons attempt rest)
  from Cons.prems obtain w1 gr s2 w2 where
    step: "sleep wait_time w = Inr w1" "get_activities JNull s w1 = (gr, s2, w2)"
      "\<not> (get_success gr \<and> bot_responses gr \<noteq> [])"
    and rest: "spec_silent_attempts (length rest) wait_time s2 w2 = Some (s', w')"
    by (auto split: sum.splits prod.splits if_splits)
  from Cons.IH [OF rest] step show ?case by simp
qed

text \<open>
  C2. Let the send succeed and, with \<open>max_retries = 5\<close>, let the second polling attempt be
  the first whose \<open>get_activities\<close> succeeds with a non-empty list of bot responses. Then
  \<open>send_and_get_response\<close> returns success with the message, those bot responses, the
  send result, that poll result and \<open>attempts = 2\<close>, and it stops in the session and the
  world that the second poll left: no third wait and no third poll.
\<close>

theorem first_success_wins:
  assumes "send_message message s w = (sr, s0, w0)" and "send_success sr"
    and "sleep wait_time w0 = Inr w1" and "get_activities JNull s0 w1 = (g1, s1, w1')"
    and "\<not> (get_success g1 \<and> bot_responses g1 \<noteq> [])"
    and "sleep wait_time w1' = Inr w2" and "get_activities JNull s1 w2 = (g2, s2, w2')"
    and "get_success g2" and "bot_responses g2 \<noteq> []"
  shows "send_and_get_response message wait_time 5 s w =
     (Inr (Response_Success message (bot_responses g2) sr g2 2), s2, w2')"
  using assms py_range_two [of 5] by (simp add: send_and_get_response_def)

theorem first_success_wins_witness:
  "send_message ''hi'' fresh_session
     (scripted 1000 (handshake @
        [activities_reply [message_from ''user123'' ''hi''] ''1'',
         activities_reply [message_from ''user123'' ''hi'', message_from ''bot1'' ''hello''] ''2'',
         activities_reply [message_from ''bot1'' ''again''] ''3''])) =
     (sent_hi, conversing_session,
      \<lparr>clock = 1003,
       pending = [activities_reply [message_from ''user123'' ''hi''] ''1'',
         activities_reply [message_from ''user123'' ''hi'', message_from ''bot1'' ''hello''] ''2'',
         activities_reply [message_from ''bot1'' ''again''] ''3''],
       trace = handshake_trace\<rparr>) \<and>
   send_success sent_hi \<and>
   send_and_get_response ''hi'' 2 5 fresh_session
     (scripted 1000 (handshake @
        [activities_reply [message_from ''user123'' ''hi''] ''1'',
         activities_reply [message_from ''user123'' ''hi'', message_from ''bot1'' ''hello''] ''2'',
         activities_reply [message_from ''bot1'' ''again''] ''3''])) =
     (Inr (Response_Success ''hi'' [JStr ''hello''] sent_hi
             (Get_Success
                (JArr [message_from ''user123'' ''hi'', message_from ''bot1'' ''hello''])
                (JStr ''2'') [JStr ''hello''] 2)
             2),
      conversing_session\<lparr>watermark := JStr ''2''\<rparr>,
      \<lparr>clock = 1009, pending = [activities_reply [message_from ''bot1'' ''again''] ''3''],
       trace = handshake_trace @ [Sleep 2, poll None, Sleep 2, poll (Some (JStr ''1''))]\<rparr>)"
proof -
  let ?script = "[activities_reply [message_from ''user123'' ''hi''] ''1'',
         activities_reply [message_from ''user123'' ''hi'', message_from ''bot1'' ''hello''] ''2'',
         activities_reply [message_from ''bot1'' ''again''] ''3'']"
  let ?w0 = "\<lparr>clock = 1003, pending = ?script, trace = handshake_trace\<rparr>"
  let ?w1 = "?w0\<lparr>clock := clock ?w0 + 2, trace := trace ?w0 @ [Sleep 2]\<rparr>"
  let ?p1 = "get_activities JNull conversing_session ?w1"
  let ?w1' = "snd (snd ?p1)"
  let ?w2 = "?w1'\<lparr>clock := clock ?w1' + 2, trace := trace ?w1' @ [Sleep 2]\<rparr>"
  let ?p2 = "get_activities JNull (fst (snd ?p1)) ?w2"
  have h1: "send_message ''hi'' fresh_session (scripted 1000 (handshake @ ?script)) =
      (sent_hi, conversing_session, ?w0)"
    by (rule handshake_run)
  have h2: "send_success sent_hi" by (simp add: sent_hi_def)
  have h3: "sleep 2 ?w0 = Inr ?w1" by (simp add: sleep_def)
  have h4: "?p1 = (fst ?p1, fst (snd ?p1), ?w1')" by simp
  have h5: "\<not> (get_success (fst ?p1) \<and> bot_responses (fst ?p1) \<noteq> [])"
    by (simp add: run_defs example_defs)
  have h6: "sleep 2 ?w1' = Inr ?w2" by (simp add: sleep_def)
  have h7: "?p2 = (fst ?p2, fst (snd ?p2), snd (snd ?p2))" by simp
  have h8: "get_success (fst ?p2)" by (simp add: run_defs example_defs)
  have h9: "bot_responses (fst ?p2) \<noteq> []" by (simp add: run_defs example_defs)
  show ?thesis
    using first_success_wins [OF h1 h2 h3 h4 h5 h6 h7 h8 h9] h1 h2
    by (simp add: run_defs example_defs)
qed

text \<open>
  C3. Let the send succeed and let each of the \<open>max_retries\<close> polling attempts wait and
  then either fail or yield no bot response. Then \<open>send_and_get_response\<close> returns the
  failure of the exhausted retries with \<open>attempts = max_retries\<close> and the send result
  attached, in the session and the world after the last attempt: a failing poll does not
  end the loop.
\<close>

theorem retries_exhausted:
  assumes "send_message message s w = (sr, s0, w0)" and "send_success sr"
    and "spec_silent_attempts (nat max_retries) wait_time s0 w0 = Some (s', w')"
  shows "send_and_get_response message wait_time max_retries s w =
     (Inr (Response_Failure (No_Bot_Response max_retries) message sr max_retries), s', w')"
  using assms poll_loop_silent [of "py_range max_retries" wait_time s0 w0 s' w' message max_retries sr]
  by (simp add: send_and_get_response_def length_py_range)

theorem retries_exhausted_witness:
  "send_message ''hi'' fresh_session
       (scripted 1000 (handshake @
          [refusal 500, activities_reply [message_from ''user123'' ''hi''] ''1''])) =
     (sent_hi, conversing_session,
      \<lparr>clock = 1003,
       pending = [refusal 500, activities_reply [message_from ''user123'' ''hi''] ''1''],
       trace = handshake_trace\<rparr>) \<and>
   send_success sent_hi \<and>
   spec_silent_attempts (nat 3) 2 conversing_session
      \<lparr>clock = 1003,
       pending = [refusal 500, activities_reply [message_from ''user123'' ''hi''] ''1''],
       trace = handshake_trace\<rparr> =
     Some (conversing_session\<lparr>watermark := JStr ''1''\<rparr>,
           \<lparr>clock = 1011, pending = [],
            trace = handshake_trace @
              [Sleep 2, poll None, Sleep 2, poll None, Sleep 2, poll (Some (JStr ''1''))]\<rparr>) \<and>
   send_and_get_response ''hi'' 2 3 fresh_session
       (scripted 1000 (handshake @
          [refusal 500, activities_reply [message_from ''user123'' ''hi''] ''1''])) =
     (Inr (Response_Failure (No_Bot_Response 3) ''hi'' sent_hi 3),
      conversing_session\<lparr>watermark := JStr ''1''\<rparr>,
      \<lparr>clock = 1011, pending = [],
       trace = handshake_trace @
         [Sleep 2, poll None, Sleep 2, poll None, Sleep 2, poll (Some (JStr ''1''))]\<rparr>)"
proof -
  let ?script = "[refusal 500, activities_reply [message_from ''user123'' ''hi''] ''1'']"
  let ?w0 = "\<lparr>clock = 1003, pending = ?script, trace = handshake_trace\<rparr>"
  have h1: "send_message ''hi'' fresh_session (scripted 1000 (handshake @ ?script)) =
      (sent_hi, conversing_session, ?w0)"
    by (rule handshake_run)
  have h2: "send_success sent_hi" by (simp add: sent_hi_def)
  have h3: "spec_silent_attempts (nat 3) 2 conversing_session ?w0 =
     Some (conversing_session\<lparr>watermark := JStr ''1''\<rparr>,
           \<lparr>clock = 1011, pending = [],
            trace = handshake_trace @
              [Sleep 2, poll None, Sleep 2, poll None, Sleep 2, poll (Some (JStr ''1''))]\<rparr>)"
    by (simp add: run_defs example_defs eval_nat_numeral)
  show ?thesis
    using retries_exhausted [OF h1 h2 h3] h1 h2 h3 by simp
qed

text \<open>
  C4. When \<open>send_message\<close> fails, \<open>send_and_get_response\<close> returns that failure, in the
  session and the world that \<open>send_message\<close> left: no wait and no poll.
\<close>

theorem send_failure_short_circuits:
  assumes "send_message message s w = (sr, s0, w0)" and "\<not> send_success sr"
  shows "send_and_get_response message wait_time max_retries s w = (Inr (Send_Result sr), s0, w0)"
  using assms by (simp add: send_and_get_response_def)

theorem send_failure_short_circuits_witness:
  "send_message ''hi'' fresh_session (scripted 1000 [token_reply, conversation_reply, refusal 403]) =
     (Send_Failure (Message_Send_Failed 403 ''refused'') (Some 403), conversing_session,
      \<lparr>clock = 1003, pending = [], trace = handshake_trace\<rparr>) \<and>
   \<not> send_success (Send_Failure (Message_Send_Failed 403 ''refused'') (Some 403)) \<and>
   send_and_get_response ''hi'' 2 5 fresh_session
       (scripted 1000 [token_reply, conversation_reply, refusal 403]) =
     (Inr (Send_Result (Send_Failure (Message_Send_Failed 403 ''refused'') (Some 403))),
      conversing_session, \<lparr>clock = 1003, pending = [], trace = handshake_trace\<rparr>)"
proof -
  have h1: "send_message ''hi'' fresh_session
       (scripted 1000 [token_reply, conversation_reply, refusal 403]) =
     (Send_Failure (Message_Send_Failed 403 ''refused'') (Some 403), conversing_session,
      \<lparr>clock = 1003, pending = [], trace = handshake_trace\<rparr>)"
    by (simp add: run_defs example_defs)
  have h2: "\<not> send_success (Send_Failure (Message_Send_Failed 403 ''refused'') (Some 403))"
    by simp
  show ?thesis
    using send_failure_short_circuits [OF h1 h2, of 2 5] h1 by simp
qed

text \<open>
  C10. When the send succeeds and \<open>max_retries\<close> is zero or negative,
  \<open>send_and_get_response\<close> waits and polls not at all and returns the failure of the
  exhausted retries with \<open>attempts = max_retries\<close> and the send result attached.
\<close>

theorem zero_retries_fail:
  assumes "send_message message s w = (sr, s0, w0)" and "send_success sr"
    and "max_retries \<le> 0"
  shows "send_and_get_response message wait_time max_retries s w =
     (Inr (Response_Failure (No_Bot_Response max_retries) message sr max_retries), s0, w0) \<and>
     \<not> response_success (Response_Failure (No_Bot_Response max_retries) message sr max_retries)"
  using assms by (simp add: send_and_get_response_def py_range_nonpositive)

theorem zero_retries_fail_witness:
  "send_message ''hi'' fresh_session
       (scripted 1000 (handshake @ [activities_reply [message_from ''bot1'' ''hello''] ''1''])) =
     (sent_hi, conversing_session,
      \<lparr>clock = 1003, pending = [activities_reply [message_from ''bot1'' ''hello''] ''1''],
       trace = handshake_trace\<rparr>) \<and>
   send_success sent_hi \<and> (0::int) \<le> 0 \<and>
   send_and_get_response ''hi'' 2 0 fresh_session
       (scripted 1000 (handshake @ [activities_reply [message_from ''bot1'' ''hello''] ''1''])) =
     (Inr (Response_Failure (No_Bot_Response 0) ''hi'' sent_hi 0), conversing_session,
      \<lparr>clock = 1003, pending = [activities_reply [message_from ''bot1'' ''hello''] ''1''],
       trace = handshake_trace\<rparr>) \<and>
   send_and_get_response ''hi'' 2 (- 1) fresh_session
       (scripted 1000 (handshake @ [activities_reply [message_from ''bot1'' ''hello''] ''1''])) =
     (Inr (Response_Failure (No_Bot_Response (- 1)) ''hi'' sent_hi (- 1)), conversing_session,
      \<lparr>clock = 1003, pending = [activities_reply [message_from ''bot1'' ''hello''] ''1''],
       trace = handshake_trace\<rparr>)"
proof -
  have h1: "send_message ''hi'' fresh_session
       (scripted 1000 (handshake @ [activities_reply [message_from ''bot1'' ''hello''] ''1''])) =
     (sent_hi, conversing_session,
      \<lparr>clock = 1003, pending = [activities_reply [message_from ''bot1'' ''hello''] ''1''],
       trace = handshake_trace\<rparr>)"
    by (rule handshake_run)
  have h2: "send_success sent_hi" by (simp add: sent_hi_def)
  show ?thesis
    using zero_retries_fail [OF h1 h2, of 0 2] zero_retries_fail [OF h1 h2, of "- 1" 2] h1 h2 by simp
qed

text \<open>
  C1. A run in which the polls do use the stored watermark: the first poll of a new
  conversation is sent without a watermark, its answer carries the watermark \<open>1\<close>, and
  the second poll of the same loop asks for the activities after \<open>1\<close> only.
\<close>

theorem poll_sends_stored_watermark:
  "trace (snd (snd (send_and_get_response ''hi'' 2 2 fresh_session
      (scripted 1000 (handshake @
         [activities_reply [message_from ''user123'' ''hi''] ''1'',
          activities_reply [] ''1''])))))
   = handshake_trace @ [Sleep 2, poll None, Sleep 2, poll (Some (JStr ''1''))]"
  by (simp add: run_defs example_defs)

end
